theory Spec2Isabelle
  imports Main "HOL-Library.Char_ord" "HOL-Library.List_Lexorder" "HOL-Library.AList"
begin

section \<open>Values, errors and the query AST\<close>

text \<open>
  Python values that occur as node identifiers, attribute values and literals.
  A dict is an association list read with \<open>map_of\<close> (the first binding of a key wins).
\<close>

datatype val =
    VNone
  | VStr string
  | VInt int
  | VDict "(string \<times> val) list"
  | VList "val list"

type_synonym attrs = "(string \<times> val) list"

text \<open>
  The exceptions the code can raise. \<open>NetworkXError\<close> is the one NetworkX raises for
  an \<^verbatim>\<open>attr_dict\<close> argument that is not a dict. \<open>NonExistentAttribute a n\<close> is the
  \<^verbatim>\<open>Exception("Asked for non-existent attribute {} in node {}.")\<close> of
  \<^verbatim>\<open>_node_attribute_value\<close>, with the attribute and the node it names.
\<close>

datatype error =
    KeyError string
  | IndexError
  | AttributeError string
  | TypeError
  | NetworkXError
  | NonExistentAttribute string val

text \<open>
  The classes of \<^verbatim>\<open>cypher_parser\<close> that the engine reads. \<open>Or\<close> and \<open>Not\<close> inherit
  from \<open>Constraint\<close>; a leaf \<open>Constraint\<close> has a \<open>keypath\<close> and a \<open>value\<close>.
\<close>

datatype constraint =
    Constraint "string list" val
  | Or constraint constraint
  | Not constraint

datatype atomic_fact =
    ClassIs string "string option"
  | EdgeExists string string "string option"
  | NodeHasDocument string "attrs option"
  | WhereClause constraint

text \<open>
  A pattern node (class \<open>Node\<close>). An attribute the code tests with \<^verbatim>\<open>hasattr\<close>, or
  reads without the class being known to define it, is an option: \<open>None\<close> in
  \<open>attribute_conditions\<close> and \<open>next_anonymous_variable\<close> means that the object has no
  such attribute; \<open>None\<close> in \<open>designation\<close> covers both a missing attribute and the
  value \<^verbatim>\<open>None\<close>, which the code treats alike.
\<close>

record pattern_node =
  designation :: "string option"
  node_class :: "string option"
  attribute_conditions :: "attrs option"
  connecting_edges :: "atomic_fact list"
  next_anonymous_variable :: "int option"

text \<open>A return item: a bare designation (a \<^verbatim>\<open>str\<close>) or a key-path (a list).\<close>

datatype return_path =
    Designation string
  | Keypath "string list"

text \<open>
  The two query classes. A \<open>MatchWhereReturnQuery\<close> has a match clause (its literal
  list and its own optional where clause), an optional where clause and the return
  list; a \<open>CreateReturnQuery\<close> has the literal list of its create clause and the
  return list.
\<close>

datatype parsed_query =
    MatchWhereReturnQuery "pattern_node list" "constraint option" "constraint option"
      "return_path list"
  | CreateReturnQuery "pattern_node list" "return_path list"

section \<open>The NetworkX backend\<close>

text \<open>
  A \<^verbatim>\<open>MultiDiGraph\<close>: \<open>node\<close> maps a node identifier to its attribute dict, in the
  order \<^verbatim>\<open>nodes()\<close> enumerates them; \<open>edge\<close> holds the edges as source, target, key
  and attribute dict.
\<close>

record multidigraph =
  node :: "(string \<times> attrs) list"
  edge :: "(string \<times> string \<times> nat \<times> attrs) list"

definition empty_graph :: multidigraph where
  "empty_graph = \<lparr>node = [], edge = []\<rparr>"

text \<open>Subscription \<^verbatim>\<open>value[key]\<close> and the dict method \<^verbatim>\<open>get\<close>.\<close>

fun getitem :: "val \<Rightarrow> string \<Rightarrow> error + val" where
  "getitem (VDict d) key =
     (case map_of d key of None \<Rightarrow> Inl (KeyError key) | Some v \<Rightarrow> Inr v)"
| "getitem _ key = Inl TypeError"

fun get_default :: "val \<Rightarrow> string \<Rightarrow> val \<Rightarrow> error + val" where
  "get_default (VDict d) key dflt =
     (case map_of d key of None \<Rightarrow> Inr dflt | Some v \<Rightarrow> Inr v)"
| "get_default _ key dflt = Inl (AttributeError ''get'')"

definition get_domain :: "multidigraph \<Rightarrow> string list" where
  "get_domain obj = map fst (node obj)"

definition get_node :: "multidigraph \<Rightarrow> string \<Rightarrow> error + val" where
  "get_node graph_object node_name =
     (case map_of (node graph_object) node_name of
        None \<Rightarrow> Inl (KeyError node_name)
      | Some a \<Rightarrow> Inr (VDict a))"

text \<open>
  \<^verbatim>\<open>_node_attribute_value\<close>: every step is \<^verbatim>\<open>out = out.get(attribute)\<close>, and any
  exception of a step is replaced by the one naming the attribute and the node.
\<close>

fun node_attribute_value_loop :: "val \<Rightarrow> val \<Rightarrow> string list \<Rightarrow> error + val" where
  "node_attribute_value_loop nd out [] = Inr out"
| "node_attribute_value_loop nd out (attribute # attribute_list) =
     (case get_default out attribute VNone of
        Inl _ \<Rightarrow> Inl (NonExistentAttribute attribute nd)
      | Inr out' \<Rightarrow> node_attribute_value_loop nd out' attribute_list)"

definition node_attribute_value :: "val \<Rightarrow> string list \<Rightarrow> error + val" where
  "node_attribute_value nd attribute_list = node_attribute_value_loop nd nd attribute_list"

text \<open>
  \<^verbatim>\<open>_attribute_value_from_node_keypath\<close>: a \<^verbatim>\<open>KeyError\<close> or \<^verbatim>\<open>TypeError\<close> of a
  step returns \<^verbatim>\<open>None\<close>; any other exception would propagate.
\<close>

fun attribute_value_from_node_keypath :: "val \<Rightarrow> string list \<Rightarrow> error + val" where
  "attribute_value_from_node_keypath v [] = Inr v"
| "attribute_value_from_node_keypath v (key # keypath) =
     (case getitem v key of
        Inl (KeyError _) \<Rightarrow> Inr VNone
      | Inl TypeError \<Rightarrow> Inr VNone
      | Inl e \<Rightarrow> Inl e
      | Inr v' \<Rightarrow> attribute_value_from_node_keypath v' keypath)"

definition edges_connecting_nodes ::
  "multidigraph \<Rightarrow> string \<Rightarrow> string \<Rightarrow> (nat \<times> val) list" where
  "edges_connecting_nodes graph_object source target =
     map (\<lambda>(s, t, index, data). (index, VDict data))
       (filter (\<lambda>(s, t, index, data). s = source \<and> t = target) (edge graph_object))"

definition node_class_nx :: "val \<Rightarrow> error + val" where
  "node_class_nx nd = get_default nd ''class'' VNone"

text \<open>
  \<^verbatim>\<open>_edge_class\<close>: \<^verbatim>\<open>edge.get(class_key, None)\<close>, where an \<^verbatim>\<open>AttributeError\<close> gives
  \<^verbatim>\<open>None\<close>; \<open>get_default\<close> raises nothing else.
\<close>

definition edge_class :: "val \<Rightarrow> val" where
  "edge_class e =
     (case get_default e ''class'' VNone of
        Inl _ \<Rightarrow> VNone
      | Inr out \<Rightarrow> out)"

text \<open>An optional name as a Python value: \<^verbatim>\<open>None\<close> or the string.\<close>

fun opt_val :: "string option \<Rightarrow> val" where
  "opt_val None = VNone"
| "opt_val (Some s) = VStr s"

subsection \<open>Creating nodes and edges\<close>

text \<open>
  \<^verbatim>\<open>random_hash\<close> hashes a random number and the clock. Its results are a parameter:
  \<open>hashes k\<close> is what the \<open>k\<close>-th call returns, and the number of calls made so far is
  threaded with the graph.
\<close>

type_synonym world = "multidigraph \<times> nat"

definition unique_id :: "(nat \<Rightarrow> string) \<Rightarrow> nat \<Rightarrow> string \<times> nat" where
  "unique_id hashes k = (''_id_'' @ hashes k, Suc k)"

text \<open>
  \<^verbatim>\<open>add_node(self, n, attr_dict=None, **attr)\<close> of NetworkX 1.x, called with the node
  and keyword arguments. Storing: a new node gets the attribute dict, an existing one
  has its dict updated with it.
\<close>

definition store_node :: "multidigraph \<Rightarrow> string \<Rightarrow> attrs \<Rightarrow> multidigraph" where
  "store_node g n attr_dict =
     (case map_of (node g) n of
        None \<Rightarrow> g\<lparr>node := node g @ [(n, attr_dict)]\<rparr>
      | Some old \<Rightarrow> g\<lparr>node := AList.update n (AList.merge old attr_dict) (node g)\<rparr>)"

text \<open>
  The keyword arguments of the call: a keyword \<^verbatim>\<open>n\<close> or \<^verbatim>\<open>self\<close> is a second value for
  a parameter (\<^verbatim>\<open>TypeError\<close>); a keyword \<^verbatim>\<open>attr_dict\<close> is taken as that parameter: when it
  is \<^verbatim>\<open>None\<close> the other keywords are the attributes, when it is a dict it is updated
  with the other keywords, and anything else raises \<^verbatim>\<open>NetworkXError\<close>.
\<close>

definition add_node :: "multidigraph \<Rightarrow> string \<Rightarrow> attrs \<Rightarrow> error + multidigraph" where
  "add_node g n kwargs =
     (if list_ex (\<lambda>(k, v). k \<in> {''self'', ''n''}) kwargs then Inl TypeError
      else
        (case map_of kwargs ''attr_dict'' of
           None \<Rightarrow> Inr (store_node g n kwargs)
         | Some VNone \<Rightarrow> Inr (store_node g n (AList.delete ''attr_dict'' kwargs))
         | Some (VDict d) \<Rightarrow>
             Inr (store_node g n (AList.merge d (AList.delete ''attr_dict'' kwargs)))
         | Some _ \<Rightarrow> Inl NetworkXError))"

text \<open>
  The key of a new parallel edge: \<^verbatim>\<open>key = len(keydict)\<close>, then
  \<^verbatim>\<open>while key in keydict: key += 1\<close>.
\<close>

function unused_key :: "nat list \<Rightarrow> nat \<Rightarrow> nat" where
  "unused_key keys key = (if key \<in> set keys then unused_key keys (Suc key) else key)"
  by pat_completeness auto
termination
proof (relation "measure (\<lambda>(keys, key). Suc (Max (insert 0 (set keys))) - key)")
  show "wf (measure (\<lambda>(keys, key). Suc (Max (insert 0 (set keys))) - key))"
    by simp
next
  fix keys :: "nat list" and key :: nat
  assume "key \<in> set keys"
  then have "key \<le> Max (insert 0 (set keys))"
    by simp
  then show "((keys, Suc key), (keys, key))
      \<in> measure (\<lambda>(keys, key). Suc (Max (insert 0 (set keys))) - key)"
    by simp
qed

declare unused_key.simps [simp del]

text \<open>
  \<^verbatim>\<open>add_edge(u, v, **attr)\<close> of NetworkX on a multigraph: both end points become
  nodes if they are not yet, and the edge is stored under a fresh integer key.
\<close>

definition ensure_node :: "multidigraph \<Rightarrow> string \<Rightarrow> multidigraph" where
  "ensure_node g n =
     (case map_of (node g) n of None \<Rightarrow> g\<lparr>node := node g @ [(n, [])]\<rparr> | Some _ \<Rightarrow> g)"

definition add_edge :: "multidigraph \<Rightarrow> string \<Rightarrow> string \<Rightarrow> attrs \<Rightarrow> multidigraph" where
  "add_edge g u v attr =
     (let g1 = ensure_node (ensure_node g u) v;
          keys = map fst (edges_connecting_nodes g1 u v);
          key = unused_key keys (length keys)
      in g1\<lparr>edge := edge g1 @ [(u, v, key, attr)]\<rparr>)"

text \<open>
  \<^verbatim>\<open>_create_node(self, graph_object, node_class, **attribute_conditions)\<close>: the class is
  stored under the key \<^verbatim>\<open>'class'\<close>, and the attribute conditions go to \<^verbatim>\<open>add_node\<close> as
  keyword arguments. The identifier is generated before \<^verbatim>\<open>add_node\<close> is called, so an
  exception of \<^verbatim>\<open>add_node\<close> leaves the graph as it was and the hash consumed.
\<close>

definition create_node ::
  "(nat \<Rightarrow> string) \<Rightarrow> world \<Rightarrow> string option \<Rightarrow> attrs \<Rightarrow> (error + string) \<times> world" where
  "create_node hashes w node_class_arg attribute_conditions_arg =
     (let (new_id, k) = unique_id hashes (snd w);
          attribute_conditions' = AList.update ''class'' (opt_val node_class_arg)
             attribute_conditions_arg
      in (case add_node (fst w) new_id attribute_conditions' of
            Inl e \<Rightarrow> (Inl e, (fst w, k))
          | Inr g \<Rightarrow> (Inr new_id, (g, k))))"

text \<open>
  \<^verbatim>\<open>_create_edge\<close>: the label is stored under the key \<^verbatim>\<open>'edge_label'\<close>, the new
  identifier under \<^verbatim>\<open>'_id'\<close>.
\<close>

definition create_edge ::
  "(nat \<Rightarrow> string) \<Rightarrow> world \<Rightarrow> string \<Rightarrow> string \<Rightarrow> string option \<Rightarrow> string \<times> world" where
  "create_edge hashes w source_node target_node edge_label =
     (let (new_edge_id, k) = unique_id hashes (snd w)
      in (new_edge_id,
          (add_edge (fst w) source_node target_node
             [(''edge_label'', opt_val edge_label), (''_id'', VStr new_edge_id)], k)))"

section \<open>The Atomic Fact Extractor\<close>

text \<open>\<^verbatim>\<open>str\<close> of a natural number, in decimal.\<close>

definition digit_char :: "nat \<Rightarrow> char" where
  "digit_char d = ''0123456789'' ! d"

function str_nat :: "nat \<Rightarrow> string" where
  "str_nat n = (if n < 10 then [digit_char n] else str_nat (n div 10) @ [digit_char (n mod 10)])"
  by pat_completeness auto
termination
  by (relation "measure (\<lambda>n. n)") auto

declare str_nat.simps [simp del]

text \<open>
  The \<open>Node\<close> branch of \<^verbatim>\<open>_recurse\<close>. The state of the walk is the list
  \<^verbatim>\<open>_recurse.atomic_facts\<close> and the counter \<^verbatim>\<open>_recurse.next_anonymous_variable\<close>. A
  node without designation is named from the counter of \<^verbatim>\<open>_recurse\<close>; the statement
  after it increments \<^verbatim>\<open>subquery.next_anonymous_variable\<close>, the attribute of the node,
  which raises \<^verbatim>\<open>AttributeError\<close> when the node has none. Each function of the walk
  returns, beside its result, the node as the walk leaves it: when the increment
  raises, the designation is already written.
\<close>

definition name_node :: "pattern_node \<Rightarrow> nat \<Rightarrow> (error + string) \<times> pattern_node" where
  "name_node subquery nav =
     (case designation subquery of
        Some d \<Rightarrow> (Inr d, subquery)
      | None \<Rightarrow>
          (case next_anonymous_variable subquery of
             None \<Rightarrow>
               (Inl (AttributeError ''next_anonymous_variable''),
                subquery\<lparr>designation := Some (''_v'' @ str_nat nav)\<rparr>)
           | Some k \<Rightarrow>
               (Inr (''_v'' @ str_nat nav),
                subquery\<lparr>designation := Some (''_v'' @ str_nat nav),
                         next_anonymous_variable := Some (k + 1)\<rparr>)))"

definition recurse_node ::
  "pattern_node \<Rightarrow> atomic_fact list \<Rightarrow> nat
     \<Rightarrow> (error + (atomic_fact list \<times> nat)) \<times> pattern_node" where
  "recurse_node subquery facts nav =
     (case name_node subquery nav of
        (Inl e, subquery') \<Rightarrow> (Inl e, subquery')
      | (Inr d, subquery') \<Rightarrow>
          (let facts1 = facts @ [ClassIs d (node_class subquery')];
               facts2 = facts1 @ connecting_edges subquery';
               facts3 =
                 (case attribute_conditions subquery' of
                    None \<Rightarrow> facts2
                  | Some conds \<Rightarrow>
                      facts2 @ [NodeHasDocument d (if length conds > 0 then Some conds else None)])
           in (Inr (facts3, nav), subquery')))"

text \<open>The \<open>Literals\<close> branch: the literals in order, up to the first that raises.\<close>

fun recurse_literals ::
  "pattern_node list \<Rightarrow> atomic_fact list \<Rightarrow> nat
     \<Rightarrow> (error + (atomic_fact list \<times> nat)) \<times> pattern_node list" where
  "recurse_literals [] facts nav = (Inr (facts, nav), [])"
| "recurse_literals (literal # literal_list) facts nav =
     (case recurse_node literal facts nav of
        (Inl e, literal') \<Rightarrow> (Inl e, literal' # literal_list)
      | (Inr (facts', nav'), literal') \<Rightarrow>
          (case recurse_literals literal_list facts' nav' of
             (r, literal_list') \<Rightarrow> (r, literal' # literal_list')))"

text \<open>The branches for \<^verbatim>\<open>None\<close> and for a \<open>WhereClause\<close>.\<close>

fun recurse_where :: "constraint option \<Rightarrow> atomic_fact list \<Rightarrow> atomic_fact list" where
  "recurse_where None facts = facts"
| "recurse_where (Some c) facts = facts @ [WhereClause c]"

text \<open>
  \<^verbatim>\<open>_recurse(query)\<close> from the empty list and the counter 0: the facts or the exception,
  and the query with what the walk has written into its nodes. The branch for an
  unhandled class cannot be reached from a value of \<open>parsed_query\<close>.
\<close>

fun recurse :: "parsed_query \<Rightarrow> (error + atomic_fact list) \<times> parsed_query" where
  "recurse (MatchWhereReturnQuery literal_list match_where where_clause rv) =
     (case recurse_literals literal_list [] 0 of
        (Inl e, literal_list') \<Rightarrow>
          (Inl e, MatchWhereReturnQuery literal_list' match_where where_clause rv)
      | (Inr (facts, nav), literal_list') \<Rightarrow>
          (Inr (recurse_where where_clause (recurse_where match_where facts)),
           MatchWhereReturnQuery literal_list' match_where where_clause rv))"
| "recurse (CreateReturnQuery literal_list rv) =
     (case recurse_literals literal_list [] 0 of
        (Inl e, literal_list') \<Rightarrow> (Inl e, CreateReturnQuery literal_list' rv)
      | (Inr (facts, nav), literal_list') \<Rightarrow> (Inr facts, CreateReturnQuery literal_list' rv))"

text \<open>
  \<^verbatim>\<open>extract_atomic_facts\<close> on a parsed query: the exception of the walk, or the facts
  together with the query as the walk leaves it.
\<close>

definition extract_atomic_facts :: "parsed_query \<Rightarrow> error + (atomic_fact list \<times> parsed_query)" where
  "extract_atomic_facts parsed_query =
     (case recurse parsed_query of
        (Inl e, parsed_query') \<Rightarrow> Inl e
      | (Inr facts, parsed_query') \<Rightarrow> Inr (facts, parsed_query'))"

fun literals_of :: "parsed_query \<Rightarrow> pattern_node list" where
  "literals_of (MatchWhereReturnQuery literal_list match_where where_clause rv) = literal_list"
| "literals_of (CreateReturnQuery literal_list rv) = literal_list"

fun variable_list :: "parsed_query \<Rightarrow> return_path list" where
  "variable_list (MatchWhereReturnQuery literal_list match_where where_clause rv) = rv"
| "variable_list (CreateReturnQuery literal_list rv) = rv"

fun set_variable_list :: "parsed_query \<Rightarrow> return_path list \<Rightarrow> parsed_query" where
  "set_variable_list (MatchWhereReturnQuery literal_list match_where where_clause _) rv =
     MatchWhereReturnQuery literal_list match_where where_clause rv"
| "set_variable_list (CreateReturnQuery literal_list _) rv = CreateReturnQuery literal_list rv"

section \<open>The matcher\<close>

text \<open>
  The designations collected from the facts: those of the facts that have a
  \<open>designation\<close> attribute (\<open>ClassIs\<close> and \<open>NodeHasDocument\<close>), as a sorted list
  without duplicates.
\<close>

fun fact_designation :: "atomic_fact \<Rightarrow> string list" where
  "fact_designation (ClassIs d c) = [d]"
| "fact_designation (NodeHasDocument d doc) = [d]"
| "fact_designation _ = []"

definition all_designations :: "atomic_fact list \<Rightarrow> string list" where
  "all_designations atomic_facts = sort (remdups (concat (map fact_designation atomic_facts)))"

type_synonym assignment = "string \<Rightarrow> string option"

definition var_to_element :: "string list \<Rightarrow> string list \<Rightarrow> assignment" where
  "var_to_element designations domain_assignment = map_of (zip designations domain_assignment)"

text \<open>\<^verbatim>\<open>var_to_element[name]\<close>, a \<^verbatim>\<open>KeyError\<close> when the name is not bound.\<close>

definition lookup :: "assignment \<Rightarrow> string \<Rightarrow> error + string" where
  "lookup a name = (case a name of None \<Rightarrow> Inl (KeyError name) | Some el \<Rightarrow> Inr el)"

text \<open>
  \<^verbatim>\<open>_eval_constraint\<close> and \<^verbatim>\<open>_eval_boolean\<close>; Python's \<^verbatim>\<open>or\<close> does not evaluate its
  right operand when the left one is true. The comparison \<^verbatim>\<open>value == constraint.value\<close>
  is equality of \<open>val\<close>, which is Python's \<^verbatim>\<open>==\<close> on \<^verbatim>\<open>None\<close>, strings and integers.
\<close>

definition eval_constraint ::
  "multidigraph \<Rightarrow> assignment \<Rightarrow> string list \<Rightarrow> val \<Rightarrow> error + bool" where
  "eval_constraint graph_object a keypath literal =
     (case keypath of
        [] \<Rightarrow> Inl IndexError
      | name # rest \<Rightarrow>
          (case lookup a name of
             Inl e \<Rightarrow> Inl e
           | Inr el \<Rightarrow>
               (case get_node graph_object el of
                  Inl e \<Rightarrow> Inl e
                | Inr nd \<Rightarrow>
                    (case attribute_value_from_node_keypath nd rest of
                       Inl e \<Rightarrow> Inl e
                     | Inr v \<Rightarrow> Inr (v = literal)))))"

fun eval_boolean :: "multidigraph \<Rightarrow> assignment \<Rightarrow> constraint \<Rightarrow> error + bool" where
  "eval_boolean graph_object a (Or left_disjunct right_disjunct) =
     (case eval_boolean graph_object a left_disjunct of
        Inl e \<Rightarrow> Inl e
      | Inr l \<Rightarrow> if l then Inr True else eval_boolean graph_object a right_disjunct)"
| "eval_boolean graph_object a (Not argument) =
     (case eval_boolean graph_object a argument of
        Inl e \<Rightarrow> Inl e
      | Inr b \<Rightarrow> Inr (\<not> b))"
| "eval_boolean graph_object a (Constraint keypath literal) =
     eval_constraint graph_object a keypath literal"

text \<open>
  One round of the loop over the atomic facts, from the value of \<^verbatim>\<open>sentinal\<close> before
  the fact to its value after it. A fact of no handled class (\<open>NodeHasDocument\<close>)
  passes through every branch of the \<^verbatim>\<open>if\<close>/\<^verbatim>\<open>elif\<close> chain.
\<close>

fun check_fact :: "multidigraph \<Rightarrow> assignment \<Rightarrow> atomic_fact \<Rightarrow> bool \<Rightarrow> error + bool" where
  "check_fact graph_object a (ClassIs d desired_class) sentinal =
     (case lookup a d of
        Inl e \<Rightarrow> Inl e
      | Inr el \<Rightarrow>
          (case get_node graph_object el of
             Inl e \<Rightarrow> Inl e
           | Inr nd \<Rightarrow>
               (case node_class_nx nd of
                  Inl e \<Rightarrow> Inl e
                | Inr var_class \<Rightarrow>
                    Inr (if desired_class \<noteq> None \<and> var_class \<noteq> opt_val desired_class
                         then False else sentinal))))"
| "check_fact graph_object a (EdgeExists node_1 node_2 edge_label) sentinal =
     (case lookup a node_1 of
        Inl e \<Rightarrow> Inl e
      | Inr el_1 \<Rightarrow>
          (case lookup a node_2 of
             Inl e \<Rightarrow> Inl e
           | Inr el_2 \<Rightarrow>
               Inr (if \<not> list_ex (\<lambda>(index, connecting_edge).
                            edge_class connecting_edge = opt_val edge_label)
                          (edges_connecting_nodes graph_object el_1 el_2)
                    then False else sentinal)))"
| "check_fact graph_object a (WhereClause c) sentinal =
     (case eval_boolean graph_object a c of
        Inl e \<Rightarrow> Inl e
      | Inr b \<Rightarrow> Inr (sentinal \<and> b))"
| "check_fact graph_object a (NodeHasDocument d doc) sentinal = Inr sentinal"

fun check_facts :: "multidigraph \<Rightarrow> assignment \<Rightarrow> atomic_fact list \<Rightarrow> bool \<Rightarrow> error + bool" where
  "check_facts graph_object a [] sentinal = Inr sentinal"
| "check_facts graph_object a (atomic_fact # atomic_facts) sentinal =
     (case check_fact graph_object a atomic_fact sentinal of
        Inl e \<Rightarrow> Inl e
      | Inr sentinal' \<Rightarrow> check_facts graph_object a atomic_facts sentinal')"

text \<open>
  The loop over the return list for one satisfying assignment. A bare designation is
  appended and the loop is left (\<^verbatim>\<open>break\<close>). A key-path list loses its first element
  by \<^verbatim>\<open>return_path.pop(0)\<close>; the list belongs to the query, so the function also
  returns the return list as the loop leaves it.
\<close>

fun project ::
  "multidigraph \<Rightarrow> assignment \<Rightarrow> return_path list \<Rightarrow> val list
     \<Rightarrow> return_path list \<times> (error + val list)" where
  "project graph_object a [] return_list = ([], Inr return_list)"
| "project graph_object a (Designation d # rest) return_list =
     (case lookup a d of
        Inl e \<Rightarrow> (Designation d # rest, Inl e)
      | Inr el \<Rightarrow> (Designation d # rest, Inr (return_list @ [VStr el])))"
| "project graph_object a (Keypath [] # rest) return_list = (Keypath [] # rest, Inl IndexError)"
| "project graph_object a (Keypath (name # return_path) # rest) return_list =
     (case lookup a name of
        Inl e \<Rightarrow> (Keypath return_path # rest, Inl e)
      | Inr el \<Rightarrow>
          (case get_node graph_object el of
             Inl e \<Rightarrow> (Keypath return_path # rest, Inl e)
           | Inr nd \<Rightarrow>
               (case node_attribute_value nd return_path of
                  Inl e \<Rightarrow> (Keypath return_path # rest, Inl e)
                | Inr v \<Rightarrow>
                    (case project graph_object a rest (return_list @ [v]) of
                       (rest', r) \<Rightarrow> (Keypath return_path # rest', r)))))"

text \<open>
  The loop over the candidate assignments: the rows yielded, the exception that ended
  the generator if one did, and the return list as the loop leaves it.
\<close>

fun match_loop ::
  "multidigraph \<Rightarrow> atomic_fact list \<Rightarrow> string list \<Rightarrow> return_path list \<Rightarrow> string list list
     \<Rightarrow> val list list \<times> error option \<times> return_path list" where
  "match_loop graph_object atomic_facts designations rv [] = ([], None, rv)"
| "match_loop graph_object atomic_facts designations rv (domain_assignment # assignments) =
     (case check_facts graph_object (var_to_element designations domain_assignment)
             atomic_facts True of
        Inl e \<Rightarrow> ([], Some e, rv)
      | Inr sentinal \<Rightarrow>
          if sentinal then
            (case project graph_object (var_to_element designations domain_assignment) rv [] of
               (rv', Inl e) \<Rightarrow> ([], Some e, rv')
             | (rv', Inr return_list) \<Rightarrow>
                 (case match_loop graph_object atomic_facts designations rv' assignments of
                    (rows, err, rv'') \<Rightarrow> (return_list # rows, err, rv'')))
          else match_loop graph_object atomic_facts designations rv assignments)"

text \<open>
  \<^verbatim>\<open>matching_nodes\<close>, consumed to its end: the rows, the exception if any, and the
  query object as the call leaves it. The candidates are
  \<^verbatim>\<open>itertools.product(*[domain] * len(all_designations))\<close>.
\<close>

definition matching_nodes ::
  "multidigraph \<Rightarrow> parsed_query \<Rightarrow> val list list \<times> error option \<times> parsed_query" where
  "matching_nodes graph_object parsed_query =
     (case extract_atomic_facts parsed_query of
        Inl e \<Rightarrow> ([], Some e, snd (recurse parsed_query))
      | Inr (atomic_facts, parsed_query') \<Rightarrow>
          (let designations = all_designations atomic_facts;
               domain = get_domain graph_object
           in case match_loop graph_object atomic_facts designations
                     (variable_list parsed_query')
                     (product_lists (replicate (length designations) domain)) of
                (rows, err, rv') \<Rightarrow> (rows, err, set_variable_list parsed_query' rv')))"

section \<open>The Create Executor and the entry point\<close>

text \<open>
  The first loop of \<^verbatim>\<open>create_query\<close>: one node per literal, recorded in the dict
  \<^verbatim>\<open>designation_to_node\<close>. The attribute conditions are passed as keyword arguments,
  so a key that is also a parameter name of \<^verbatim>\<open>_create_node\<close> is a \<^verbatim>\<open>TypeError\<close>.
\<close>

fun create_nodes ::
  "(nat \<Rightarrow> string) \<Rightarrow> world \<Rightarrow> pattern_node list \<Rightarrow> (string option \<times> string) list
     \<Rightarrow> (error + (string option \<times> string) list) \<times> world" where
  "create_nodes hashes w [] designation_to_node = (Inr designation_to_node, w)"
| "create_nodes hashes w (literal # literal_list) designation_to_node =
     (case attribute_conditions literal of
        None \<Rightarrow> (Inl (AttributeError ''attribute_conditions''), w)
      | Some conds \<Rightarrow>
          if list_ex (\<lambda>(k, v). k \<in> {''self'', ''graph_object'', ''node_class''}) conds
          then (Inl TypeError, w)
          else
            (case create_node hashes w (node_class literal) conds of
               (Inl e, w') \<Rightarrow> (Inl e, w')
             | (Inr new_id, w') \<Rightarrow>
                 create_nodes hashes w' literal_list
                   (AList.update (designation literal) new_id designation_to_node)))"

text \<open>The second loop: one edge per \<open>EdgeExists\<close> fact, between the created nodes.\<close>

fun create_edges ::
  "(nat \<Rightarrow> string) \<Rightarrow> world \<Rightarrow> atomic_fact list \<Rightarrow> (string option \<times> string) list
     \<Rightarrow> (string \<times> string) list \<Rightarrow> (error + (string \<times> string) list) \<times> world" where
  "create_edges hashes w [] designation_to_node designation_to_edge =
     (Inr designation_to_edge, w)"
| "create_edges hashes w (EdgeExists node_1 node_2 edge_label # atomic_facts)
       designation_to_node designation_to_edge =
     (case map_of designation_to_node (Some node_1) of
        None \<Rightarrow> (Inl (KeyError node_1), w)
      | Some source_node \<Rightarrow>
          (case map_of designation_to_node (Some node_2) of
             None \<Rightarrow> (Inl (KeyError node_2), w)
           | Some target_node \<Rightarrow>
               (case create_edge hashes w source_node target_node edge_label of
                  (new_edge_id, w') \<Rightarrow>
                    create_edges hashes w' atomic_facts designation_to_node
                      (AList.update ''placeholder'' new_edge_id designation_to_edge))))"
| "create_edges hashes w (_ # atomic_facts) designation_to_node designation_to_edge =
     create_edges hashes w atomic_facts designation_to_node designation_to_edge"

text \<open>
  The body of \<^verbatim>\<open>create_query\<close>, run to its end: the two dicts it has built,
  \<^verbatim>\<open>designation_to_node\<close> and \<^verbatim>\<open>designation_to_edge\<close>, or the exception that ended it;
  the graph after it, and the query object after it.
\<close>

definition create_query_body ::
  "(nat \<Rightarrow> string) \<Rightarrow> world \<Rightarrow> parsed_query
     \<Rightarrow> (error + (string option \<times> string) list \<times> (string \<times> string) list)
         \<times> world \<times> parsed_query" where
  "create_query_body hashes w parsed_query =
     (case extract_atomic_facts parsed_query of
        Inl e \<Rightarrow> (Inl e, w, snd (recurse parsed_query))
      | Inr (atomic_facts, parsed_query') \<Rightarrow>
          (case create_nodes hashes w (literals_of parsed_query') [] of
             (Inl e, w') \<Rightarrow> (Inl e, w', parsed_query')
           | (Inr designation_to_node, w') \<Rightarrow>
               (case create_edges hashes w' atomic_facts designation_to_node [] of
                  (Inl e, w'') \<Rightarrow> (Inl e, w'', parsed_query')
                | (Inr designation_to_edge, w'') \<Rightarrow>
                    (Inr (designation_to_node, designation_to_edge), w'', parsed_query'))))"

text \<open>
  \<^verbatim>\<open>create_query\<close>: what the call returns or raises, the graph after it, and the query
  object after it. The function has no \<^verbatim>\<open>return\<close> statement: when the body reaches
  its end the call returns \<^verbatim>\<open>None\<close>, and the two dicts are dropped.
\<close>

definition create_query ::
  "(nat \<Rightarrow> string) \<Rightarrow> world \<Rightarrow> parsed_query \<Rightarrow> (error + val) \<times> world \<times> parsed_query" where
  "create_query hashes w parsed_query =
     (case create_query_body hashes w parsed_query of
        (Inl e, w', parsed_query') \<Rightarrow> (Inl e, w', parsed_query')
      | (Inr dicts, w', parsed_query') \<Rightarrow> (Inr VNone, w', parsed_query'))"


section \<open>Properties named by the specification, and example inputs\<close>

text \<open>
  A key-path resolves on a value when every step finds its key in a dict. It fails to
  resolve when a key is missing at some step, or when the value reached is not a dict
  and so cannot be indexed further.
\<close>

fun resolves :: "val \<Rightarrow> string list \<Rightarrow> bool" where
  "resolves v [] = True"
| "resolves (VDict d) (key # keypath) =
     (case map_of d key of None \<Rightarrow> False | Some v' \<Rightarrow> resolves v' keypath)"
| "resolves _ (key # keypath) = False"

text \<open>No edge of the graph has a value under the key \<^verbatim>\<open>'class'\<close>, the one \<^verbatim>\<open>_edge_class\<close> reads.\<close>

definition classless_edges :: "multidigraph \<Rightarrow> bool" where
  "classless_edges g = list_all (\<lambda>(s, t, index, data). map_of data ''class'' = None) (edge g)"






text \<open>A pattern node as the parser builds it, with no attribute \<^verbatim>\<open>next_anonymous_variable\<close>.\<close>

definition Node ::
  "string option \<Rightarrow> string option \<Rightarrow> attrs \<Rightarrow> atomic_fact list \<Rightarrow> pattern_node" where
  "Node d c conds edges =
     \<lparr>designation = d, node_class = c, attribute_conditions = Some conds,
      connecting_edges = edges, next_anonymous_variable = None\<rparr>"

text \<open>
  The graph of the specification's example: \<open>a\<close> (class Person, name Ann), \<open>b\<close> (class
  Person, name Bo) and an edge from \<open>a\<close> to \<open>b\<close> of class KNOWS.
\<close>

definition bo_node :: val where
  "bo_node = VDict [(''class'', VStr ''Person''), (''name'', VStr ''Bo'')]"

definition example_graph :: multidigraph where
  "example_graph =
     \<lparr>node = [(''a'', [(''class'', VStr ''Person''), (''name'', VStr ''Ann'')]),
              (''b'', [(''class'', VStr ''Person''), (''name'', VStr ''Bo'')])],
      edge = [(''a'', ''b'', 0, [(''class'', VStr ''KNOWS'')])]\<rparr>"

text \<open>A graph whose only node has no class label.\<close>

definition unclassed_graph :: multidigraph where
  "unclassed_graph = \<lparr>node = [(''c'', [(''name'', VStr ''Cy'')])], edge = []\<rparr>"

text \<open>\<^verbatim>\<open>MATCH (x:Person)-[:KNOWS]->(y:Person) WHERE x.name = "Ann" RETURN y.name\<close>\<close>

definition ann_bo_query :: parsed_query where
  "ann_bo_query =
     MatchWhereReturnQuery
       [Node (Some ''x'') (Some ''Person'') [] [EdgeExists ''x'' ''y'' (Some ''KNOWS'')],
        Node (Some ''y'') (Some ''Person'') [] []]
       None (Some (Constraint [''x'', ''name''] (VStr ''Ann''))) [Keypath [''y'', ''name'']]"

text \<open>\<^verbatim>\<open>MATCH (x:Person {name: "Ann"}) RETURN x\<close>\<close>

definition inline_query :: parsed_query where
  "inline_query =
     MatchWhereReturnQuery [Node (Some ''x'') (Some ''Person'') [(''name'', VStr ''Ann'')] []]
       None None [Designation ''x'']"

text \<open>\<^verbatim>\<open>MATCH (x:Person) WHERE x.name = "Ann" RETURN x\<close>\<close>

definition where_query :: parsed_query where
  "where_query =
     MatchWhereReturnQuery [Node (Some ''x'') (Some ''Person'') [] []]
       None (Some (Constraint [''x'', ''name''] (VStr ''Ann''))) [Designation ''x'']"

text \<open>\<^verbatim>\<open>MATCH (x:Person)-[:KNOWS]->(y:Person) RETURN x, y\<close>\<close>

definition two_items_query :: parsed_query where
  "two_items_query =
     MatchWhereReturnQuery
       [Node (Some ''x'') (Some ''Person'') [] [EdgeExists ''x'' ''y'' (Some ''KNOWS'')],
        Node (Some ''y'') (Some ''Person'') [] []]
       None None [Designation ''x'', Designation ''y'']"

text \<open>\<^verbatim>\<open>MATCH (x:Person) RETURN x.name\<close>\<close>

definition names_query :: parsed_query where
  "names_query =
     MatchWhereReturnQuery [Node (Some ''x'') (Some ''Person'') [] []]
       None None [Keypath [''x'', ''name'']]"

text \<open>\<^verbatim>\<open>MATCH (x:Person) WHERE x.name = "Bo" RETURN x.nope\<close>\<close>

definition missing_attribute_query :: parsed_query where
  "missing_attribute_query =
     MatchWhereReturnQuery [Node (Some ''x'') (Some ''Person'') [] []]
       None (Some (Constraint [''x'', ''name''] (VStr ''Bo''))) [Keypath [''x'', ''nope'']]"

text \<open>\<^verbatim>\<open>MATCH (x)-->(y) RETURN x\<close>\<close>

definition unlabelled_query :: parsed_query where
  "unlabelled_query =
     MatchWhereReturnQuery
       [Node (Some ''x'') None [] [EdgeExists ''x'' ''y'' None], Node (Some ''y'') None [] []]
       None None [Designation ''x'']"

text \<open>
  \<^verbatim>\<open>MATCH (:A), (:B) RETURN ...\<close> with two pattern nodes without designation: as the
  parser builds them, and with nodes that do carry a counter attribute.
\<close>

definition anonymous_query :: parsed_query where
  "anonymous_query =
     MatchWhereReturnQuery [Node None (Some ''A'') [] [], Node None (Some ''B'') [] []]
       None None []"

definition anonymous_counted_query :: parsed_query where
  "anonymous_counted_query =
     MatchWhereReturnQuery
       [(Node None (Some ''A'') [] [])\<lparr>next_anonymous_variable := Some 0\<rparr>,
        (Node None (Some ''B'') [] [])\<lparr>next_anonymous_variable := Some 0\<rparr>]
       None None []"

text \<open>\<^verbatim>\<open>CREATE (n:Person {name:"Ann"})-[:KNOWS]->(m:Person {name:"Bo"}) RETURN n\<close>\<close>

definition create_literals :: "pattern_node list" where
  "create_literals =
     [Node (Some ''n'') (Some ''Person'') [(''name'', VStr ''Ann'')]
        [EdgeExists ''n'' ''m'' (Some ''KNOWS'')],
      Node (Some ''m'') (Some ''Person'') [(''name'', VStr ''Bo'')] []]"

definition create_example :: parsed_query where
  "create_example = CreateReturnQuery create_literals [Designation ''n'']"

text \<open>A run in which the \<open>k\<close>-th hash is the decimal numeral of \<open>k\<close>.\<close>

definition example_hashes :: "nat \<Rightarrow> string" where
  "example_hashes k = str_nat k"

section \<open>The Filter Evaluator is null-safe\<close>

lemma getitem_cases:
  "getitem v key = Inl (KeyError key) \<or> getitem v key = Inl TypeError
     \<or> (\<exists>v'. getitem v key = Inr v')"
  by (cases v) (auto split: option.splits)

lemma keypath_never_raises: "\<exists>out. attribute_value_from_node_keypath v keypath = Inr out"
proof (induction keypath arbitrary: v)
  case Nil
  show ?case by simp
next
  case (Cons key keypath)
  from getitem_cases [of v key] show ?case
  proof (elim disjE exE)
    fix v' assume "getitem v key = Inr v'"
    with Cons.IH [of v'] show ?thesis by simp
  qed simp_all
qed

lemma keypath_unresolved_is_None:
  "\<not> resolves v keypath \<Longrightarrow> attribute_value_from_node_keypath v keypath = Inr VNone"
proof (induction v keypath rule: resolves.induct)
  case (2 d key keypath)
  then show ?case by (cases "map_of d key") simp_all
qed simp_all

text \<open>
  C8, as stated: a filter equality constraint whose key-path fails to resolve on the
  bound node evaluates to false, the absent value comparing unequal to the literal.
  The absent value is \<^verbatim>\<open>None\<close>, and the comparison is \<^verbatim>\<open>==\<close>: on the node \<open>a\<close> of the
  example graph the path \<open>nope\<close> does not resolve, and the constraint that compares it
  with the literal \<^verbatim>\<open>None\<close> evaluates to true.
\<close>

theorem unresolved_keypath_equals_None_literal:
  "\<not> resolves (VDict [(''class'', VStr ''Person''), (''name'', VStr ''Ann'')]) [''nope'']
   \<and> get_node example_graph ''a''
        = Inr (VDict [(''class'', VStr ''Person''), (''name'', VStr ''Ann'')])
   \<and> eval_boolean example_graph (var_to_element [''x''] [''a''])
        (Constraint [''x'', ''nope''] VNone) = Inr True"
  by code_simp

text \<open>
  C8, amended: a filter equality constraint whose key-path, after the designation,
  fails to resolve on the bound node (a key is missing at some step, or a value on the
  way cannot be indexed) raises nothing, for every node, every such key-path and every
  literal; it evaluates to false for every literal other than \<^verbatim>\<open>None\<close>, and to true for
  the literal \<^verbatim>\<open>None\<close>, which is the value an absent path is given.
\<close>

theorem unresolved_filter_keypath_compares_None:
  assumes "a name = Some el" and "map_of (node graph_object) el = Some attributes"
    and "\<not> resolves (VDict attributes) rest"
  shows "eval_boolean graph_object a (Constraint (name # rest) literal) = Inr (literal = VNone)"
  using assms keypath_unresolved_is_None [of "VDict attributes" rest]
  by (auto simp: eval_constraint_def lookup_def get_node_def)

theorem unresolved_filter_keypath_compares_None_witness:
  "var_to_element [''x''] [''a''] ''x'' = Some ''a''
   \<and> map_of (node example_graph) ''a'' = Some [(''class'', VStr ''Person''), (''name'', VStr ''Ann'')]
   \<and> \<not> resolves (VDict [(''class'', VStr ''Person''), (''name'', VStr ''Ann'')]) [''name'', ''first'']
   \<and> eval_boolean example_graph (var_to_element [''x''] [''a''])
        (Constraint [''x'', ''name'', ''first''] (VStr ''Ann'')) = Inr False"
proof -
  have h1: "var_to_element [''x''] [''a''] ''x'' = Some ''a''"
    by (simp add: var_to_element_def)
  have h2: "map_of (node example_graph) ''a''
      = Some [(''class'', VStr ''Person''), (''name'', VStr ''Ann'')]"
    by (simp add: example_graph_def)
  have h3: "\<not> resolves (VDict [(''class'', VStr ''Person''), (''name'', VStr ''Ann'')])
      [''name'', ''first'']"
    by simp
  from unresolved_filter_keypath_compares_None
      [where a = "var_to_element [''x''] [''a'']" and name = "''x''", OF h1 h2 h3,
       of "VStr ''Ann''"]
    h1 h2 h3
  show ?thesis
    by simp
qed

section \<open>What the matcher checks\<close>

lemma check_fact_NodeHasDocument:
  "check_fact graph_object a (NodeHasDocument d doc) sentinal = Inr sentinal"
  by simp

lemma check_fact_EdgeExists:
  assumes "a node_1 = Some el_1" and "a node_2 = Some el_2"
  shows "check_fact graph_object a (EdgeExists node_1 node_2 edge_label) sentinal =
           Inr (sentinal \<and> (\<exists>(index, connecting_edge) \<in> set (edges_connecting_nodes graph_object el_1 el_2).
                  edge_class connecting_edge = opt_val edge_label))"
  using assms by (auto simp: lookup_def list_ex_iff)

text \<open>
  C1: every \<open>NodeHasDocument\<close> fact (the inline attribute conditions of a pattern node)
  is evaluated against the candidate assignment, and the assignment is rejected when
  the conditions are false, as a filter clause with the same equality is. On the
  example graph the query \<^verbatim>\<open>MATCH (x:Person {name: "Ann"}) RETURN x\<close> yields both
  persons, \<open>b\<close> (named Bo) included, while \<^verbatim>\<open>MATCH (x:Person) WHERE x.name = "Ann"
  RETURN x\<close> yields \<open>a\<close> alone: the matcher has no branch for the fact.
\<close>

theorem inline_conditions_are_not_checked:
  "fst (matching_nodes example_graph inline_query) = [[VStr ''a''], [VStr ''b'']]
   \<and> fst (snd (matching_nodes example_graph inline_query)) = None
   \<and> fst (matching_nodes example_graph where_query) = [[VStr ''a'']]"
  by code_simp

text \<open>
  C2: the row of a satisfying assignment has one value per return item, in order, also
  for the items after a bare designation, and every satisfying assignment of one
  execution is projected alike. On the example graph
  \<^verbatim>\<open>MATCH (x:Person)-[:KNOWS]->(y:Person) RETURN x, y\<close> yields the row \<open>[a]\<close>, with no
  value for \<open>y\<close>; and \<^verbatim>\<open>MATCH (x:Person) RETURN x.name\<close>, which two assignments satisfy,
  yields the row of the first and then raises \<^verbatim>\<open>KeyError\<close>, the designation having been
  popped off the key-path.
\<close>

theorem projection_stops_at_bare_designation:
  "matching_nodes example_graph two_items_query = ([[VStr ''a'']], None, two_items_query)
   \<and> fst (matching_nodes example_graph names_query) = [[VStr ''Ann'']]
   \<and> fst (snd (matching_nodes example_graph names_query)) = Some (KeyError ''name'')"
  by code_simp

text \<open>
  C3: in one extraction call the pattern nodes without designation get the distinct
  names \<open>_v0\<close>, \<open>_v1\<close>, ... On a query with two such nodes the extraction raises
  \<^verbatim>\<open>AttributeError\<close> when the nodes have no attribute \<^verbatim>\<open>next_anonymous_variable\<close>, and
  names both nodes \<open>_v0\<close> when they have one: the counter that is read is never the one
  that is incremented.
\<close>

theorem anonymous_nodes_share_a_name:
  "extract_atomic_facts anonymous_query = Inl (AttributeError ''next_anonymous_variable'')
   \<and> map_sum id (\<lambda>(facts, parsed_query'). map designation (literals_of parsed_query'))
        (extract_atomic_facts anonymous_counted_query) = Inr [Some ''_v0'', Some ''_v0'']
   \<and> map_sum id fst (extract_atomic_facts anonymous_counted_query) =
        Inr [ClassIs ''_v0'' (Some ''A''), NodeHasDocument ''_v0'' None,
             ClassIs ''_v0'' (Some ''B''), NodeHasDocument ''_v0'' None]"
  by code_simp

text \<open>
  C5: a key-path of a RETURN item with a segment that does not exist on the bound node
  raises the error naming the missing attribute and the node, the last segment
  included; the same path in a WHERE filter raises nothing. On the node \<open>b\<close> of the
  example graph the path \<open>nope\<close> returns \<^verbatim>\<open>None\<close> and raises nothing, so the query
  \<^verbatim>\<open>MATCH (x:Person) WHERE x.name = "Bo" RETURN x.nope\<close> yields the row \<open>[None]\<close>; the
  path \<open>nope.deeper\<close> raises, naming \<open>deeper\<close> and not the missing \<open>nope\<close>.
\<close>

theorem missing_return_attribute_is_None:
  "get_node example_graph ''b'' = Inr bo_node
   \<and> node_attribute_value bo_node [''nope''] = Inr VNone
   \<and> node_attribute_value bo_node [''nope'', ''deeper'']
        = Inl (NonExistentAttribute ''deeper'' bo_node)
   \<and> attribute_value_from_node_keypath bo_node [''nope''] = Inr VNone
   \<and> fst (matching_nodes example_graph missing_attribute_query) = [[VNone]]
   \<and> fst (snd (matching_nodes example_graph missing_attribute_query)) = None"
  by code_simp

text \<open>
  C6: an \<open>EdgeExists\<close> fact without label is satisfied as soon as an edge of any label
  joins the two bound nodes; with a label, exactly when an edge between them has that
  label. On the example graph, where the edge from \<open>a\<close> to \<open>b\<close> has the class KNOWS, the
  fact without label fails for \<open>x = a\<close>, \<open>y = b\<close>, and \<^verbatim>\<open>MATCH (x)-->(y) RETURN x\<close> yields
  no row: the class of the edge is compared with \<^verbatim>\<open>None\<close>.
\<close>

theorem unlabelled_pattern_misses_labelled_edge:
  "edges_connecting_nodes example_graph ''a'' ''b'' = [(0, VDict [(''class'', VStr ''KNOWS'')])]
   \<and> check_fact example_graph (var_to_element [''x'', ''y''] [''a'', ''b''])
        (EdgeExists ''x'' ''y'' None) True = Inr False
   \<and> check_fact example_graph (var_to_element [''x'', ''y''] [''a'', ''b''])
        (EdgeExists ''x'' ''y'' (Some ''KNOWS'')) True = Inr True
   \<and> fst (matching_nodes example_graph unlabelled_query) = []
   \<and> fst (snd (matching_nodes example_graph unlabelled_query)) = None"
  by code_simp

text \<open>
  C7, as stated: a \<open>ClassIs\<close> fact with a required class fails only when the bound
  node has a class label and the label differs, so that a node without class label
  satisfies every \<open>ClassIs\<close> fact. The node \<open>c\<close> has no class label, and the fact
  requiring the class Person fails on it.
\<close>

theorem node_without_class_fails_ClassIs:
  "get_node unclassed_graph ''c'' = Inr (VDict [(''name'', VStr ''Cy'')])
   \<and> node_class_nx (VDict [(''name'', VStr ''Cy'')]) = Inr VNone
   \<and> check_fact unclassed_graph (var_to_element [''x''] [''c''])
        (ClassIs ''x'' (Some ''Person'')) True = Inr False"
  by code_simp

text \<open>
  C7, amended: a \<open>ClassIs\<close> fact with a required class name passes exactly when the
  bound node's attribute \<^verbatim>\<open>'class'\<close> is that name; it fails when the label differs and
  also when the node has no class label.
\<close>

theorem ClassIs_passes_iff_class_equal:
  assumes "a d = Some el" and "map_of (node graph_object) el = Some attributes"
  shows "check_fact graph_object a (ClassIs d (Some c)) sentinal =
           Inr (sentinal \<and> map_of attributes ''class'' = Some (VStr c))"
  using assms
  by (auto simp: lookup_def get_node_def node_class_nx_def split: option.splits)

theorem ClassIs_passes_iff_class_equal_witness:
  "var_to_element [''x''] [''a''] ''x'' = Some ''a''
   \<and> map_of (node example_graph) ''a''
        = Some [(''class'', VStr ''Person''), (''name'', VStr ''Ann'')]
   \<and> check_fact example_graph (var_to_element [''x''] [''a''])
        (ClassIs ''x'' (Some ''Person'')) True = Inr True
   \<and> check_fact example_graph (var_to_element [''x''] [''a''])
        (ClassIs ''x'' (Some ''Robot'')) True = Inr False"
proof -
  have h1: "var_to_element [''x''] [''a''] ''x'' = Some ''a''"
    by (simp add: var_to_element_def)
  have h2: "map_of (node example_graph) ''a''
      = Some [(''class'', VStr ''Person''), (''name'', VStr ''Ann'')]"
    by (simp add: example_graph_def)
  note inst = ClassIs_passes_iff_class_equal
      [where a = "var_to_element [''x''] [''a'']" and d = "''x''", OF h1 h2]
  from inst [of "''Person''" True] inst [of "''Robot''" True] h1 h2
  show ?thesis
    by simp
qed

text \<open>
  C9: on an unchanged graph, two invocations of the MATCH execution on the same parsed
  query yield the same rows in the same order. On the example graph the first
  invocation on \<^verbatim>\<open>MATCH (x:Person)-[:KNOWS]->(y:Person) WHERE x.name = "Ann" RETURN
  y.name\<close> yields the row \<open>[Bo]\<close> and leaves the key-path of the return item without
  its designation; the second invocation on that query object yields no row and
  raises \<^verbatim>\<open>KeyError\<close>.
\<close>

theorem second_invocation_differs:
  "(case matching_nodes example_graph ann_bo_query of
      (rows, err, parsed_query') \<Rightarrow>
        rows = [[VStr ''Bo'']] \<and> err = None
        \<and> variable_list parsed_query' = [Keypath [''name'']]
        \<and> fst (matching_nodes example_graph parsed_query') = []
        \<and> fst (snd (matching_nodes example_graph parsed_query')) = Some (KeyError ''name''))"
  by code_simp

section \<open>Edges made by the Create Executor\<close>

lemma edge_ensure_node: "edge (ensure_node g n) = edge g"
  by (simp add: ensure_node_def split: option.splits)

lemma edge_store_node: "edge (store_node g n attr) = edge g"
  by (simp add: store_node_def split: option.splits)

lemma edge_add_node: "add_node g n kwargs = Inr g' \<Longrightarrow> edge g' = edge g"
  by (auto simp: add_node_def edge_store_node split: if_splits option.splits val.splits)

lemma edge_add_edge: "\<exists>key. edge (add_edge g u v attr) = edge g @ [(u, v, key, attr)]"
  by (simp add: add_edge_def Let_def edge_ensure_node)

lemma edge_create_edge:
  "\<exists>key. edge (fst (snd (create_edge hashes w s t l))) =
      edge (fst w) @ [(s, t, key, [(''edge_label'', opt_val l),
         (''_id'', VStr (fst (create_edge hashes w s t l)))])]"
  using edge_add_edge [of "fst w" s t]
  by (simp add: create_edge_def unique_id_def)

lemma classless_create_node:
  "classless_edges (fst w) \<Longrightarrow> classless_edges (fst (snd (create_node hashes w c conds)))"
  by (auto simp: create_node_def unique_id_def classless_edges_def
      split: sum.splits dest: edge_add_node)

lemma classless_create_edge:
  assumes "classless_edges (fst w)"
  shows "classless_edges (fst (snd (create_edge hashes w s t l)))"
proof -
  from edge_create_edge [of hashes w s t l] obtain key where
    "edge (fst (snd (create_edge hashes w s t l))) =
      edge (fst w) @ [(s, t, key, [(''edge_label'', opt_val l),
         (''_id'', VStr (fst (create_edge hashes w s t l)))])]"
    by blast
  with assms show ?thesis
    by (simp add: classless_edges_def)
qed

lemma classless_create_nodes:
  "classless_edges (fst w) \<Longrightarrow>
     classless_edges (fst (snd (create_nodes hashes w literal_list d2n)))"
proof (induction literal_list arbitrary: w d2n)
  case Nil
  then show ?case by simp
next
  case (Cons literal literal_list)
  show ?case
  proof (cases "attribute_conditions literal")
    case None
    with Cons.prems show ?thesis by simp
  next
    case (Some conds)
    obtain r w' where cn: "create_node hashes w (node_class literal) conds = (r, w')"
      by (cases "create_node hashes w (node_class literal) conds")
    with classless_create_node [OF Cons.prems, of hashes "node_class literal" conds]
    have w': "classless_edges (fst w')" by simp
    show ?thesis
    proof (cases r)
      case (Inl e)
      with Cons.prems Some cn w' show ?thesis by simp
    next
      case (Inr new_id)
      with Cons.IH [OF w'] Cons.prems Some cn show ?thesis by simp
    qed
  qed
qed

lemma classless_create_edges:
  "classless_edges (fst w) \<Longrightarrow>
     classless_edges (fst (snd (create_edges hashes w atomic_facts d2n d2e)))"
proof (induction hashes w atomic_facts d2n d2e rule: create_edges.induct)
  case (2 hashes w node_1 node_2 edge_label atomic_facts d2n d2e)
  show ?case
  proof (cases "map_of d2n (Some node_1)")
    case None
    with "2.prems" show ?thesis by simp
  next
    case (Some source_node)
    note src = this
    show ?thesis
    proof (cases "map_of d2n (Some node_2)")
      case None
      with "2.prems" src show ?thesis by simp
    next
      case (Some target_node)
      obtain new_edge_id w' where
        ce: "create_edge hashes w source_node target_node edge_label = (new_edge_id, w')"
        by (cases "create_edge hashes w source_node target_node edge_label")
      with classless_create_edge [OF "2.prems", of hashes source_node target_node edge_label]
      have "classless_edges (fst w')" by simp
      from "2.IH" [OF src Some ce [symmetric] this] src Some ce show ?thesis by simp
    qed
  qed
qed simp_all

lemma classless_create_query_body:
  assumes "classless_edges (fst w)"
  shows "classless_edges (fst (fst (snd (create_query_body hashes w q))))"
proof (cases "extract_atomic_facts q")
  case (Inl e)
  with assms show ?thesis by (simp add: create_query_body_def)
next
  case (Inr p)
  obtain atomic_facts q' where p: "p = (atomic_facts, q')" by (cases p)
  obtain r1 w1 where cn: "create_nodes hashes w (literals_of q') [] = (r1, w1)"
    by (cases "create_nodes hashes w (literals_of q') []")
  from classless_create_nodes [OF assms, of hashes "literals_of q'" "[]"] cn
  have w1: "classless_edges (fst w1)" by simp
  show ?thesis
  proof (cases r1)
    case (Inl e)
    with Inr p cn w1 show ?thesis by (simp add: create_query_body_def)
  next
    case (Inr d2n)
    note r1 = this
    obtain r2 w2 where ce: "create_edges hashes w1 atomic_facts d2n [] = (r2, w2)"
      by (cases "create_edges hashes w1 atomic_facts d2n []")
    from classless_create_edges [OF w1, of hashes atomic_facts d2n "[]"] ce
    have "classless_edges (fst w2)" by simp
    with \<open>extract_atomic_facts q = Inr p\<close> p cn r1 ce show ?thesis
      by (cases r2) (simp_all add: create_query_body_def)
  qed
qed

lemma world_create_query:
  "fst (snd (create_query hashes w q)) = fst (snd (create_query_body hashes w q))"
  by (simp add: create_query_def split: prod.splits sum.splits)

lemma classless_create_query:
  assumes "classless_edges (fst w)"
  shows "classless_edges (fst (fst (snd (create_query hashes w q))))"
  using classless_create_query_body [OF assms, of hashes q] by (simp add: world_create_query)

lemma classless_edges_connecting:
  "classless_edges g \<Longrightarrow> (index, e) \<in> set (edges_connecting_nodes g u v)
     \<Longrightarrow> edge_class e = VNone"
  by (auto simp: classless_edges_def edges_connecting_nodes_def edge_class_def list_all_iff)

lemma classless_labelled:
  assumes "classless_edges g"
  shows "\<not> list_ex (\<lambda>(index, connecting_edge). edge_class connecting_edge = VStr l)
            (edges_connecting_nodes g u v)"
  using classless_edges_connecting [OF assms] by (fastforce simp: list_ex_iff)

lemma edges_connecting_create_edge:
  "\<exists>key. edges_connecting_nodes (fst (snd (create_edge hashes w s t l))) u v =
      edges_connecting_nodes (fst w) u v @
        (if s = u \<and> t = v
         then [(key, VDict [(''edge_label'', opt_val l),
                 (''_id'', VStr (fst (create_edge hashes w s t l)))])]
         else [])"
proof -
  from edge_create_edge [of hashes w s t l] obtain key where
    "edge (fst (snd (create_edge hashes w s t l))) =
      edge (fst w) @ [(s, t, key, [(''edge_label'', opt_val l),
         (''_id'', VStr (fst (create_edge hashes w s t l)))])]"
    by blast
  then show ?thesis
    by (auto simp: edges_connecting_nodes_def)
qed

lemma labelled_fact_unchanged:
  "check_fact (fst (snd (create_edge hashes w s t l))) a (EdgeExists x y (Some label)) sentinal
     = check_fact (fst w) a (EdgeExists x y (Some label)) sentinal"
proof (cases "lookup a x")
  case (Inl e)
  then show ?thesis by simp
next
  case (Inr u)
  note u = this
  show ?thesis
  proof (cases "lookup a y")
    case (Inl e)
    with u show ?thesis by simp
  next
    case (Inr v)
    from edges_connecting_create_edge [of hashes w s t l u v] obtain key where
      "edges_connecting_nodes (fst (snd (create_edge hashes w s t l))) u v =
        edges_connecting_nodes (fst w) u v @
          (if s = u \<and> t = v
           then [(key, VDict [(''edge_label'', opt_val l),
                   (''_id'', VStr (fst (create_edge hashes w s t l)))])]
           else [])"
      by blast
    with u Inr show ?thesis
      by (simp add: edge_class_def)
  qed
qed

text \<open>
  C10: \<^verbatim>\<open>_create_edge\<close> stores the label of the new edge under the key \<^verbatim>\<open>'edge_label'\<close>,
  so \<^verbatim>\<open>_edge_class\<close>, which reads the key \<^verbatim>\<open>'class'\<close>, returns \<^verbatim>\<open>None\<close> on the stored
  edge, whatever the label. Hence the created edge never makes an \<open>EdgeExists\<close> fact
  with a label true: the fact holds after \<^verbatim>\<open>_create_edge\<close> exactly as it did before, for
  every assignment; and in a graph whose edges have no \<^verbatim>\<open>'class'\<close> (the empty graph, and
  every graph the Create Executor makes from one) it fails after a whole
  \<^verbatim>\<open>create_query\<close>, for every pair of bound nodes. The fact without label does hold
  between the end points of the created edge.
\<close>

theorem created_edge_has_no_class:
  "(\<exists>key. edge (fst (snd (create_edge hashes w s t l))) =
            edge (fst w) @ [(s, t, key, [(''edge_label'', opt_val l),
               (''_id'', VStr (fst (create_edge hashes w s t l)))])])
   \<and> edge_class (VDict [(''edge_label'', opt_val l),
               (''_id'', VStr (fst (create_edge hashes w s t l)))]) = VNone
   \<and> check_fact (fst (snd (create_edge hashes w s t l))) a
        (EdgeExists x y (Some label)) sentinal
       = check_fact (fst w) a (EdgeExists x y (Some label)) sentinal
   \<and> (a x = Some s \<and> a y = Some t \<longrightarrow>
        check_fact (fst (snd (create_edge hashes w s t l))) a
          (EdgeExists x y None) sentinal = Inr sentinal)
   \<and> (classless_edges (fst w) \<and> a x = Some u \<and> a y = Some v \<longrightarrow>
        check_fact (fst (fst (snd (create_query hashes w q)))) a
          (EdgeExists x y (Some label)) sentinal = Inr False)"
proof -
  let ?g = "fst (snd (create_edge hashes w s t l))"
  let ?h = "fst (fst (snd (create_query hashes w q)))"
  let ?data = "[(''edge_label'', opt_val l), (''_id'', VStr (fst (create_edge hashes w s t l)))]"
  have "edge_class (VDict ?data) = VNone"
    by (simp add: edge_class_def)
  moreover have "a x = Some s \<and> a y = Some t \<longrightarrow>
      check_fact ?g a (EdgeExists x y None) sentinal = Inr sentinal"
  proof
    assume b: "a x = Some s \<and> a y = Some t"
    from edges_connecting_create_edge [of hashes w s t l s t] obtain key where
      "edges_connecting_nodes ?g s t = edges_connecting_nodes (fst w) s t @ [(key, VDict ?data)]"
      by auto
    with b show "check_fact ?g a (EdgeExists x y None) sentinal = Inr sentinal"
      by (simp add: lookup_def edge_class_def)
  qed
  moreover have "classless_edges (fst w) \<and> a x = Some u \<and> a y = Some v \<longrightarrow>
      check_fact ?h a (EdgeExists x y (Some label)) sentinal = Inr False"
  proof
    assume b: "classless_edges (fst w) \<and> a x = Some u \<and> a y = Some v"
    then have "classless_edges ?h"
      by (simp add: classless_create_query)
    from classless_labelled [OF this, of label u v] b
    show "check_fact ?h a (EdgeExists x y (Some label)) sentinal = Inr False"
      by (simp add: lookup_def)
  qed
  ultimately show ?thesis
    using edge_create_edge [of hashes w s t l]
      labelled_fact_unchanged [of hashes w s t l a x y label sentinal]
    by blast
qed

theorem created_edge_has_no_class_witness:
  "classless_edges (fst (empty_graph, 0 :: nat))
   \<and> var_to_element [''x'', ''y''] [''a'', ''b''] ''x'' = Some ''a''
   \<and> var_to_element [''x'', ''y''] [''a'', ''b''] ''y'' = Some ''b''
   \<and> edge (fst (snd (create_edge example_hashes (empty_graph, 0) ''a'' ''b'' (Some ''KNOWS''))))
        = [(''a'', ''b'', 0, [(''edge_label'', VStr ''KNOWS''), (''_id'', VStr ''_id_0'')])]
   \<and> check_fact (fst (snd (create_edge example_hashes (empty_graph, 0) ''a'' ''b'' (Some ''KNOWS''))))
        (var_to_element [''x'', ''y''] [''a'', ''b''])
        (EdgeExists ''x'' ''y'' None) True = Inr True
   \<and> check_fact (fst (fst (snd (create_query example_hashes (empty_graph, 0) create_example))))
        (var_to_element [''x'', ''y''] [''a'', ''b''])
        (EdgeExists ''x'' ''y'' (Some ''KNOWS'')) True = Inr False"
proof -
  have h1: "classless_edges (fst (empty_graph, 0 :: nat))"
    by (simp add: classless_edges_def empty_graph_def)
  have h2: "var_to_element [''x'', ''y''] [''a'', ''b''] ''x'' = Some ''a''"
    by (simp add: var_to_element_def)
  have h3: "var_to_element [''x'', ''y''] [''a'', ''b''] ''y'' = Some ''b''"
    by (simp add: var_to_element_def)
  have stored:
    "edge (fst (snd (create_edge example_hashes (empty_graph, 0) ''a'' ''b'' (Some ''KNOWS''))))
       = [(''a'', ''b'', 0, [(''edge_label'', VStr ''KNOWS''), (''_id'', VStr ''_id_0'')])]"
    by code_simp
  from created_edge_has_no_class
      [where a = "var_to_element [''x'', ''y''] [''a'', ''b'']" and x = "''x''" and y = "''y''"
         and s = "''a''" and t = "''b''" and u = "''a''" and v = "''b''"
         and hashes = example_hashes and w = "(empty_graph, 0)" and l = "Some ''KNOWS''"
         and label = "''KNOWS''" and sentinal = True and q = create_example]
    h1 h2 h3 stored
  show ?thesis
    by blast
qed

section \<open>What a CREATE query returns\<close>























end
